theory Spec2Isabelle
  imports Complex_Main "HOL-Library.Word"
begin

unbundle bit_operations_syntax

section \<open>Data model\<close>

text \<open>
  The controller of \<^verbatim>\<open>fan_control.cpp\<close> (declared in \<^verbatim>\<open>fan_control.h\<close>) talks to
  two outside parties: the Windows loader together with the exports of
  \<^verbatim>\<open>winring_wrapper.dll\<close> (capability acquisition), and the two I/O ports of the
  embedded controller. The wrapper and the driver behind it are not part of the model:
  what they answer is a parameter. Every call that leaves the class is
  recorded, in order, as an event; an operation of the model takes the controller and
  the events so far and returns both updated.
\<close>

type_synonym handle = nat
type_synonym fnptr = nat

datatype io_event =
    LoadLibraryA string
  | GetProcAddress handle string
  | FreeLibrary handle
  | Call_LoadWinRing0
  | Call_InitWinRing0
  | Call_GetStatus
  | Call_DeinitWinRing0
  | WritePort "16 word" "8 word"
  | ReadPort "16 word"

text \<open>
  The private members of \<^verbatim>\<open>class FanController\<close>. A pointer is \<open>None\<close> when it is
  \<^verbatim>\<open>nullptr\<close>.
\<close>

record FanController =
  hWinRing0Wrapper :: "handle option"
  pLoadWinRing0 :: "fnptr option"
  pInitWinRing0 :: "fnptr option"
  pReadPort :: "fnptr option"
  pWritePort :: "fnptr option"
  pGetStatus :: "fnptr option"
  pDeinitWinRing0 :: "fnptr option"
  winring_init_ok :: bool
  lastError :: string

record machine =
  ctrl :: FanController
  trace :: "io_event list"

text \<open>
  What the hardware answers to a port read is not decided by the program: it is a
  parameter, any function of the events so far and of the port.
\<close>

type_synonym hardware = "io_event list \<Rightarrow> 16 word \<Rightarrow> 8 word"

text \<open>
  What the loader and the wrapper's exports answer during one run of
  \<^verbatim>\<open>initialize\<close>: \<open>load_library\<close> is the handle or the code of \<^verbatim>\<open>GetLastError\<close>.
\<close>

record loader =
  load_library :: "nat + handle"
  get_proc_address :: "string \<Rightarrow> fnptr option"
  load_winring0 :: bool
  init_winring0 :: bool
  get_status :: "32 word"

record FanConfigData =
  fan1_curve :: "8 word list"
  fan2_curve :: "8 word list"
  acc_time :: "8 word list"
  dec_time :: "8 word list"
  cpu_lower_temp :: "8 word list"
  cpu_upper_temp :: "8 word list"
  gpu_lower_temp :: "8 word list"
  gpu_upper_temp :: "8 word list"
  vrm_lower_temp :: "8 word list"
  vrm_upper_temp :: "8 word list"

record FanStatusData =
  fan1_speed :: "16 word"
  fan2_speed :: "16 word"
  fan1_percent :: int
  fan2_percent :: int
  fan1_curve :: "8 word list"
  fan2_curve :: "8 word list"
  acc_time :: "8 word list"
  dec_time :: "8 word list"
  cpu_lower_temp :: "8 word list"
  cpu_upper_temp :: "8 word list"
  gpu_lower_temp :: "8 word list"
  gpu_upper_temp :: "8 word list"
  vrm_lower_temp :: "8 word list"
  vrm_upper_temp :: "8 word list"
  chip_id1 :: "8 word"
  chip_id2 :: "8 word"
  chip_ver :: "8 word"
  fw_ver :: "16 word"
  fan1_target_duty :: "8 word"
  fan2_target_duty :: "8 word"
  fan1_target_curve_val :: "8 word"
  fan2_target_curve_val :: "8 word"
  fan_cur_point :: "8 word"

text \<open>The constructors of the two structures and of the controller.\<close>

definition FanConfigData_default :: FanConfigData where
  "FanConfigData_default =
     \<lparr> FanConfigData.fan1_curve = replicate 10 0, fan2_curve = replicate 10 0,
       acc_time = replicate 10 0, dec_time = replicate 10 0,
       cpu_lower_temp = replicate 10 0, cpu_upper_temp = replicate 10 0,
       gpu_lower_temp = replicate 10 0, gpu_upper_temp = replicate 10 0,
       vrm_lower_temp = replicate 10 0, vrm_upper_temp = replicate 10 0 \<rparr>"

definition FanStatusData_default :: FanStatusData where
  "FanStatusData_default =
     \<lparr> fan1_speed = 0, fan2_speed = 0, fan1_percent = 0, fan2_percent = 0,
       fan1_curve = replicate 10 0, fan2_curve = replicate 10 0,
       acc_time = replicate 10 0, dec_time = replicate 10 0,
       cpu_lower_temp = replicate 10 0, cpu_upper_temp = replicate 10 0,
       gpu_lower_temp = replicate 10 0, gpu_upper_temp = replicate 10 0,
       vrm_lower_temp = replicate 10 0, vrm_upper_temp = replicate 10 0,
       chip_id1 = 0, chip_id2 = 0, chip_ver = 0, fw_ver = 0,
       fan1_target_duty = 0, fan2_target_duty = 0,
       fan1_target_curve_val = 0, fan2_target_curve_val = 0, fan_cur_point = 0 \<rparr>"

definition FanController_new :: FanController where
  "FanController_new =
     \<lparr> hWinRing0Wrapper = None, pLoadWinRing0 = None, pInitWinRing0 = None,
       pReadPort = None, pWritePort = None, pGetStatus = None, pDeinitWinRing0 = None,
       winring_init_ok = False, lastError = [] \<rparr>"

section \<open>Constants\<close>

definition EC_ADDR_PORT :: "16 word" where "EC_ADDR_PORT = 0x4E"
definition EC_DATA_PORT :: "16 word" where "EC_DATA_PORT = 0x4F"

definition ECHIPID1 :: "16 word" where "ECHIPID1 = 0x2000"
definition ECHIPID2 :: "16 word" where "ECHIPID2 = 0x2001"
definition ECHIPVER :: "16 word" where "ECHIPVER = 0x2002"
definition FW_VER :: "16 word" where "FW_VER = 0xC2C7"
definition FAN_CUR_POINT :: "16 word" where "FAN_CUR_POINT = 0xC534"
definition FAN1_BASE :: "16 word" where "FAN1_BASE = 0xC540"
definition FAN2_BASE :: "16 word" where "FAN2_BASE = 0xC550"
definition FAN_ACC_BASE :: "16 word" where "FAN_ACC_BASE = 0xC560"
definition FAN_DEC_BASE :: "16 word" where "FAN_DEC_BASE = 0xC570"
definition CPU_TEMP :: "16 word" where "CPU_TEMP = 0xC580"
definition CPU_TEMP_HYST :: "16 word" where "CPU_TEMP_HYST = 0xC590"
definition GPU_TEMP :: "16 word" where "GPU_TEMP = 0xC5A0"
definition GPU_TEMP_HYST :: "16 word" where "GPU_TEMP_HYST = 0xC5B0"
definition VRM_TEMP :: "16 word" where "VRM_TEMP = 0xC5C0"
definition VRM_TEMP_HYST :: "16 word" where "VRM_TEMP_HYST = 0xC5D0"
definition FAN1_TARGET_DUTY :: "16 word" where "FAN1_TARGET_DUTY = 0xC5FC - 0x18"
definition FAN2_TARGET_DUTY :: "16 word" where "FAN2_TARGET_DUTY = 0xC5FD - 0x18"
definition FAN1_TARGET_CURVE_VAL :: "16 word" where "FAN1_TARGET_CURVE_VAL = 0xC5FC"
definition FAN2_TARGET_CURVE_VAL :: "16 word" where "FAN2_TARGET_CURVE_VAL = 0xC5FD"
definition FAN1_CUR_ACC :: "16 word" where "FAN1_CUR_ACC = 0xC3DC"
definition FAN1_CUR_DEC :: "16 word" where "FAN1_CUR_DEC = 0xC3DD"
definition FAN2_CUR_ACC :: "16 word" where "FAN2_CUR_ACC = 0xC3DE"
definition FAN2_CUR_DEC :: "16 word" where "FAN2_CUR_DEC = 0xC3DF"
definition FAN1_RPM_LSB :: "16 word" where "FAN1_RPM_LSB = 0xC5E0"
definition FAN1_RPM_MSB :: "16 word" where "FAN1_RPM_MSB = 0xC5E1"
definition FAN2_RPM_LSB :: "16 word" where "FAN2_RPM_LSB = 0xC5E2"
definition FAN2_RPM_MSB :: "16 word" where "FAN2_RPM_MSB = 0xC5E3"

definition MAX_FAN1_RPM :: "16 word" where "MAX_FAN1_RPM = 5200"
definition MAX_FAN2_RPM :: "16 word" where "MAX_FAN2_RPM = 5000"

section \<open>Port access and the EC transaction\<close>

definition setError :: "string \<Rightarrow> machine \<Rightarrow> machine" where
  "setError errorMsg s = s\<lparr>ctrl := (ctrl s)\<lparr>lastError := errorMsg\<rparr>\<rparr>"

text \<open>
  Both port primitives return at once, without a call, unless the controller is
  initialized and the export is resolved; the read then returns 0.
\<close>

definition read_io_port_byte :: "hardware \<Rightarrow> 16 word \<Rightarrow> machine \<Rightarrow> 8 word \<times> machine" where
  "read_io_port_byte hw port s =
     (if \<not> winring_init_ok (ctrl s) \<or> pReadPort (ctrl s) = None then (0, s)
      else (hw (trace s) port, s\<lparr>trace := trace s @ [ReadPort port]\<rparr>))"

definition write_io_port_byte :: "16 word \<Rightarrow> 8 word \<Rightarrow> machine \<Rightarrow> machine" where
  "write_io_port_byte port val s =
     (if \<not> winring_init_ok (ctrl s) \<or> pWritePort (ctrl s) = None then s
      else s\<lparr>trace := trace s @ [WritePort port val]\<rparr>)"

definition direct_ec_read :: "hardware \<Rightarrow> 16 word \<Rightarrow> machine \<Rightarrow> 8 word \<times> machine" where
  "direct_ec_read hw addr s =
     (let s = write_io_port_byte EC_ADDR_PORT 0x2E s;
          s = write_io_port_byte EC_DATA_PORT 0x11 s;
          s = write_io_port_byte EC_ADDR_PORT 0x2F s;
          s = write_io_port_byte EC_DATA_PORT (ucast (drop_bit 8 addr AND 0xFF)) s;
          s = write_io_port_byte EC_ADDR_PORT 0x2E s;
          s = write_io_port_byte EC_DATA_PORT 0x10 s;
          s = write_io_port_byte EC_ADDR_PORT 0x2F s;
          s = write_io_port_byte EC_DATA_PORT (ucast (addr AND 0xFF)) s;
          s = write_io_port_byte EC_ADDR_PORT 0x2E s;
          s = write_io_port_byte EC_DATA_PORT 0x12 s;
          s = write_io_port_byte EC_ADDR_PORT 0x2F s
      in read_io_port_byte hw EC_DATA_PORT s)"

definition direct_ec_write :: "16 word \<Rightarrow> 8 word \<Rightarrow> machine \<Rightarrow> machine" where
  "direct_ec_write addr data s =
     (let s = write_io_port_byte EC_ADDR_PORT 0x2E s;
          s = write_io_port_byte EC_DATA_PORT 0x11 s;
          s = write_io_port_byte EC_ADDR_PORT 0x2F s;
          s = write_io_port_byte EC_DATA_PORT (ucast (drop_bit 8 addr AND 0xFF)) s;
          s = write_io_port_byte EC_ADDR_PORT 0x2E s;
          s = write_io_port_byte EC_DATA_PORT 0x10 s;
          s = write_io_port_byte EC_ADDR_PORT 0x2F s;
          s = write_io_port_byte EC_DATA_PORT (ucast (addr AND 0xFF)) s;
          s = write_io_port_byte EC_ADDR_PORT 0x2E s;
          s = write_io_port_byte EC_DATA_PORT 0x12 s;
          s = write_io_port_byte EC_ADDR_PORT 0x2F s
      in write_io_port_byte EC_DATA_PORT data s)"

text \<open>
  The array helpers run the loop \<^verbatim>\<open>for (i = 0; i < size; ++i)\<close>; the index is cast to
  16 bits and the address addition wraps at 16 bits.
\<close>

definition direct_ec_read_array ::
    "hardware \<Rightarrow> 16 word \<Rightarrow> nat \<Rightarrow> machine \<Rightarrow> 8 word list \<times> machine" where
  "direct_ec_read_array hw addr_base n s =
     foldl (\<lambda>(buffer, s) i.
              let (v, s) = direct_ec_read hw (addr_base + of_nat i) s
              in (buffer[i := v], s))
       (replicate n 0, s) [0..<n]"

definition direct_ec_write_array :: "16 word \<Rightarrow> 8 word list \<Rightarrow> machine \<Rightarrow> machine" where
  "direct_ec_write_array addr_base data s =
     (if data = [] then s
      else foldl (\<lambda>s i. direct_ec_write (addr_base + of_nat i) (data ! i) s)
             s [0..<length data])"

section \<open>Numbers as text and as doubles\<close>

text \<open>\<^verbatim>\<open>std::to_string\<close> of a non-negative integer: its decimal digits.\<close>

definition digit_char :: "nat \<Rightarrow> char" where
  "digit_char d = ''0123456789'' ! d"

fun to_string :: "nat \<Rightarrow> string" where
  "to_string n =
     (if n < 10 then [digit_char n] else to_string (n div 10) @ [digit_char (n mod 10)])"

declare to_string.simps [simp del]

text \<open>
  The percentage is computed in \<^verbatim>\<open>double\<close>. A double is modelled by the number it
  denotes, and an arithmetic operation by the exact result rounded to 53 significant
  bits, ties to even (IEEE 754 binary64, round to nearest). Overflow, subnormal numbers,
  infinities and NaN are left out: the operands here are a 16-bit speed, a non-zero
  16-bit maximum and 100, so every exact result is 0 or lies between \<open>1 / 65535\<close> and
  \<open>6553500\<close>.
\<close>

fun bit_length :: "nat \<Rightarrow> nat" where
  "bit_length n = (if n = 0 then 0 else Suc (bit_length (n div 2)))"

declare bit_length.simps [simp del]

text \<open>For \<open>0 < x\<close>, the integer \<open>k\<close> with \<open>2\<^sup>k \<le> x < 2\<^sup>k\<^sup>+\<^sup>1\<close>.\<close>

definition floor_log2 :: "real \<Rightarrow> int" where
  "floor_log2 x =
     (if 1 \<le> x then int (bit_length (nat \<lfloor>x\<rfloor>)) - 1
      else - int (bit_length (nat (\<lceil>1 / x\<rceil> - 1))))"

definition round_ties_even :: "real \<Rightarrow> int" where
  "round_ties_even q =
     (let f = \<lfloor>q\<rfloor>; r = q - of_int f
      in if r < 1 / 2 then f else if 1 / 2 < r then f + 1
         else if even f then f else f + 1)"

definition double_round :: "real \<Rightarrow> real" where
  "double_round x =
     (if x = 0 then 0
      else let e = floor_log2 \<bar>x\<bar> - 52
           in sgn x * of_int (round_ties_even (\<bar>x\<bar> / 2 powi e)) * 2 powi e)"

definition double_div :: "real \<Rightarrow> real \<Rightarrow> real" where
  "double_div a b = double_round (a / b)"

definition double_mul :: "real \<Rightarrow> real \<Rightarrow> real" where
  "double_mul a b = double_round (a * b)"

text \<open>\<^verbatim>\<open>static_cast<int>\<close> of a double drops the fraction (towards zero).\<close>

definition double_to_int :: "real \<Rightarrow> int" where
  "double_to_int x = (if 0 \<le> x then \<lfloor>x\<rfloor> else \<lceil>x\<rceil>)"

text \<open>
  The expression of \<^verbatim>\<open>readStatus\<close> for either fan:
  \<^verbatim>\<open>(MAX > 0) ? static_cast<int>((static_cast<double>(speed) / MAX) * 100.0) : 0\<close>.
\<close>

definition fan_percent :: "16 word \<Rightarrow> 16 word \<Rightarrow> int" where
  "fan_percent max_rpm speed =
     (if 0 < unat max_rpm
      then double_to_int
             (double_mul (double_div (of_nat (unat speed)) (of_nat (unat max_rpm))) 100)
      else 0)"

section \<open>The controller\<close>

definition emit :: "io_event \<Rightarrow> machine \<Rightarrow> machine" where
  "emit e s = s\<lparr>trace := trace s @ [e]\<rparr>"

text \<open>
  \<^verbatim>\<open>GetProcAddress\<close> on the wrapper's handle, for one export; the result is stored in
  the member by the caller.
\<close>

definition resolve :: "loader \<Rightarrow> handle \<Rightarrow> string \<Rightarrow> machine \<Rightarrow> fnptr option \<times> machine" where
  "resolve env h name s = (get_proc_address env name, emit (GetProcAddress h name) s)"

text \<open>
  The two statements that end every failing branch of \<^verbatim>\<open>initialize\<close> after the
  library was loaded: \<^verbatim>\<open>FreeLibrary(hWinRing0Wrapper); hWinRing0Wrapper = nullptr;\<close>
\<close>

definition free_wrapper :: "handle \<Rightarrow> machine \<Rightarrow> machine" where
  "free_wrapper h s = (let s = emit (FreeLibrary h) s
                       in s\<lparr>ctrl := (ctrl s)\<lparr>hWinRing0Wrapper := None\<rparr>\<rparr>)"

definition initialize :: "loader \<Rightarrow> machine \<Rightarrow> bool \<times> machine" where
  "initialize env s =
     (if winring_init_ok (ctrl s) then (True, s)
      else
        let s = setError [] s;
            s = emit (LoadLibraryA ''winring_wrapper.dll'') s
        in case load_library env of
             Inl errorCode \<Rightarrow>
               let s = s\<lparr>ctrl := (ctrl s)\<lparr>hWinRing0Wrapper := None\<rparr>\<rparr>
               in (False,
                   setError (''Could not load winring_wrapper.dll. Error code: ''
                             @ to_string errorCode
                             @ ''. Ensure DLL and dependencies (WinRing0x64.dll, MinGW runtimes) are present.'') s)
           | Inr h \<Rightarrow>
               let s = s\<lparr>ctrl := (ctrl s)\<lparr>hWinRing0Wrapper := Some h\<rparr>\<rparr>;
                   (p, s) = resolve env h ''LoadWinRing0'' s;
                   s = s\<lparr>ctrl := (ctrl s)\<lparr>pLoadWinRing0 := p\<rparr>\<rparr>;
                   (p, s) = resolve env h ''InitWinRing0'' s;
                   s = s\<lparr>ctrl := (ctrl s)\<lparr>pInitWinRing0 := p\<rparr>\<rparr>;
                   (p, s) = resolve env h ''ReadPort'' s;
                   s = s\<lparr>ctrl := (ctrl s)\<lparr>pReadPort := p\<rparr>\<rparr>;
                   (p, s) = resolve env h ''WritePort'' s;
                   s = s\<lparr>ctrl := (ctrl s)\<lparr>pWritePort := p\<rparr>\<rparr>;
                   (p, s) = resolve env h ''GetStatus'' s;
                   s = s\<lparr>ctrl := (ctrl s)\<lparr>pGetStatus := p\<rparr>\<rparr>;
                   (p, s) = resolve env h ''DeinitWinRing0'' s;
                   s = s\<lparr>ctrl := (ctrl s)\<lparr>pDeinitWinRing0 := p\<rparr>\<rparr>
               in if pLoadWinRing0 (ctrl s) = None \<or> pInitWinRing0 (ctrl s) = None
                     \<or> pReadPort (ctrl s) = None \<or> pWritePort (ctrl s) = None
                     \<or> pGetStatus (ctrl s) = None \<or> pDeinitWinRing0 (ctrl s) = None
                  then (False,
                        free_wrapper h
                          (setError ''Could not get one or more function addresses from wrapper DLL.'' s))
                  else
                    let s = emit Call_LoadWinRing0 s
                    in if \<not> load_winring0 env
                       then (False,
                             free_wrapper h (setError ''LoadWinRing0() via wrapper failed.'' s))
                       else
                         let s = emit Call_InitWinRing0 s
                         in if \<not> init_winring0 env
                            then
                              let (status, s) =
                                    (if pGetStatus (ctrl s) \<noteq> None
                                     then (get_status env, emit Call_GetStatus s)
                                     else (0, s));
                                  s = setError (''InitWinRing0() via wrapper failed. Status: ''
                                                @ to_string (unat status)) s
                              in (False, free_wrapper h s)
                            else (True, s\<lparr>ctrl := (ctrl s)\<lparr>winring_init_ok := True\<rparr>\<rparr>))"

definition deinitialize :: "machine \<Rightarrow> machine" where
  "deinitialize s =
     (let s = (if hWinRing0Wrapper (ctrl s) \<noteq> None \<and> winring_init_ok (ctrl s)
                  \<and> pDeinitWinRing0 (ctrl s) \<noteq> None
               then emit Call_DeinitWinRing0 s else s);
          s = (case hWinRing0Wrapper (ctrl s) of
                 Some h \<Rightarrow> free_wrapper h s
               | None \<Rightarrow> s)
      in s\<lparr>ctrl := (ctrl s)\<lparr>winring_init_ok := False, pLoadWinRing0 := None,
                              pInitWinRing0 := None, pReadPort := None, pWritePort := None,
                              pGetStatus := None, pDeinitWinRing0 := None\<rparr>\<rparr>)"

definition isInitialized :: "machine \<Rightarrow> bool" where
  "isInitialized s = winring_init_ok (ctrl s)"

definition getLastError :: "machine \<Rightarrow> string" where
  "getLastError s = lastError (ctrl s)"

text \<open>
  \<^verbatim>\<open>readStatus\<close> fills the caller's structure through a reference: the model takes it
  and returns it. The ports are called through plain C function pointers and the reads
  of the vectors are guarded, so nothing in the \<^verbatim>\<open>try\<close> block throws and the two
  \<^verbatim>\<open>catch\<close> clauses have no branch in the model.
\<close>

definition readStatus ::
    "hardware \<Rightarrow> FanStatusData \<Rightarrow> machine \<Rightarrow> bool \<times> FanStatusData \<times> machine" where
  "readStatus hw statusData s =
     (if \<not> winring_init_ok (ctrl s)
      then (False, statusData, setError ''WinRing0 not initialized, cannot read status.'' s)
      else
        let s = setError [] s;
            (fan1_low, s) = direct_ec_read hw FAN1_RPM_LSB s;
            (fan1_high, s) = direct_ec_read hw FAN1_RPM_MSB s;
            statusData = statusData\<lparr>fan1_speed := push_bit 8 (ucast fan1_high) OR ucast fan1_low\<rparr>;
            (fan2_low, s) = direct_ec_read hw FAN2_RPM_LSB s;
            (fan2_high, s) = direct_ec_read hw FAN2_RPM_MSB s;
            statusData = statusData\<lparr>fan2_speed := push_bit 8 (ucast fan2_high) OR ucast fan2_low\<rparr>;
            statusData = statusData\<lparr>fan1_percent := fan_percent MAX_FAN1_RPM (fan1_speed statusData)\<rparr>;
            statusData = statusData\<lparr>fan2_percent := fan_percent MAX_FAN2_RPM (fan2_speed statusData)\<rparr>;
            (v, s) = direct_ec_read_array hw FAN1_BASE 10 s;
            statusData = statusData\<lparr>fan1_curve := v\<rparr>;
            (v, s) = direct_ec_read_array hw FAN2_BASE 10 s;
            statusData = statusData\<lparr>fan2_curve := v\<rparr>;
            (v, s) = direct_ec_read_array hw FAN_ACC_BASE 10 s;
            statusData = statusData\<lparr>acc_time := v\<rparr>;
            (v, s) = direct_ec_read_array hw FAN_DEC_BASE 10 s;
            statusData = statusData\<lparr>dec_time := v\<rparr>;
            (v, s) = direct_ec_read_array hw CPU_TEMP 10 s;
            statusData = statusData\<lparr>cpu_upper_temp := v\<rparr>;
            (v, s) = direct_ec_read_array hw CPU_TEMP_HYST 10 s;
            statusData = statusData\<lparr>cpu_lower_temp := v\<rparr>;
            (v, s) = direct_ec_read_array hw GPU_TEMP 10 s;
            statusData = statusData\<lparr>gpu_upper_temp := v\<rparr>;
            (v, s) = direct_ec_read_array hw GPU_TEMP_HYST 10 s;
            statusData = statusData\<lparr>gpu_lower_temp := v\<rparr>;
            (v, s) = direct_ec_read_array hw VRM_TEMP 10 s;
            statusData = statusData\<lparr>vrm_upper_temp := v\<rparr>;
            (v, s) = direct_ec_read_array hw VRM_TEMP_HYST 10 s;
            statusData = statusData\<lparr>vrm_lower_temp := v\<rparr>;
            (b, s) = direct_ec_read hw ECHIPID1 s;
            statusData = statusData\<lparr>chip_id1 := b\<rparr>;
            (b, s) = direct_ec_read hw ECHIPID2 s;
            statusData = statusData\<lparr>chip_id2 := b\<rparr>;
            (b, s) = direct_ec_read hw ECHIPVER s;
            statusData = statusData\<lparr>chip_ver := b\<rparr>;
            (b, s) = direct_ec_read hw FW_VER s;
            statusData = statusData\<lparr>fw_ver := ucast b\<rparr>;
            (b, s) = direct_ec_read hw FAN1_TARGET_DUTY s;
            statusData = statusData\<lparr>fan1_target_duty := b\<rparr>;
            (b, s) = direct_ec_read hw FAN2_TARGET_DUTY s;
            statusData = statusData\<lparr>fan2_target_duty := b\<rparr>;
            (b, s) = direct_ec_read hw FAN1_TARGET_CURVE_VAL s;
            statusData = statusData\<lparr>fan1_target_curve_val := b\<rparr>;
            (b, s) = direct_ec_read hw FAN2_TARGET_CURVE_VAL s;
            statusData = statusData\<lparr>fan2_target_curve_val := b\<rparr>;
            (b, s) = direct_ec_read hw FAN_CUR_POINT s;
            statusData = statusData\<lparr>fan_cur_point := b\<rparr>
        in (True, statusData, s))"

text \<open>The size check of \<^verbatim>\<open>writeConfig\<close>: true when some table is not of size 10.\<close>

definition bad_sizes :: "FanConfigData \<Rightarrow> bool" where
  "bad_sizes configData =
     (length (FanConfigData.fan1_curve configData) \<noteq> 10
      \<or> length (FanConfigData.fan2_curve configData) \<noteq> 10
      \<or> length (FanConfigData.acc_time configData) \<noteq> 10
      \<or> length (FanConfigData.dec_time configData) \<noteq> 10
      \<or> length (FanConfigData.cpu_lower_temp configData) \<noteq> 10
      \<or> length (FanConfigData.cpu_upper_temp configData) \<noteq> 10
      \<or> length (FanConfigData.gpu_lower_temp configData) \<noteq> 10
      \<or> length (FanConfigData.gpu_upper_temp configData) \<noteq> 10
      \<or> length (FanConfigData.vrm_lower_temp configData) \<noteq> 10
      \<or> length (FanConfigData.vrm_upper_temp configData) \<noteq> 10)"

text \<open>
  The first statements of the \<^verbatim>\<open>try\<close> block of \<^verbatim>\<open>writeConfig\<close>: the ten array
  writes and the copy of each fan's target curve value to its target duty register.
  As in \<^verbatim>\<open>readStatus\<close>, nothing in the block throws.
\<close>

definition writeConfig_tables :: "hardware \<Rightarrow> FanConfigData \<Rightarrow> machine \<Rightarrow> machine" where
  "writeConfig_tables hw configData s =
     (let s = direct_ec_write_array FAN1_BASE (FanConfigData.fan1_curve configData) s;
          s = direct_ec_write_array FAN2_BASE (FanConfigData.fan2_curve configData) s;
          s = direct_ec_write_array CPU_TEMP (FanConfigData.cpu_upper_temp configData) s;
          s = direct_ec_write_array GPU_TEMP (FanConfigData.gpu_upper_temp configData) s;
          s = direct_ec_write_array VRM_TEMP (FanConfigData.vrm_upper_temp configData) s;
          s = direct_ec_write_array CPU_TEMP_HYST (FanConfigData.cpu_lower_temp configData) s;
          s = direct_ec_write_array GPU_TEMP_HYST (FanConfigData.gpu_lower_temp configData) s;
          s = direct_ec_write_array VRM_TEMP_HYST (FanConfigData.vrm_lower_temp configData) s;
          s = direct_ec_write_array FAN_ACC_BASE (FanConfigData.acc_time configData) s;
          s = direct_ec_write_array FAN_DEC_BASE (FanConfigData.dec_time configData) s;
          (fan1_curve_target, s) = direct_ec_read hw FAN1_TARGET_CURVE_VAL s;
          s = direct_ec_write FAN1_TARGET_DUTY fan1_curve_target s;
          (fan2_curve_target, s) = direct_ec_read hw FAN2_TARGET_CURVE_VAL s;
          s = direct_ec_write FAN2_TARGET_DUTY fan2_curve_target s
      in s)"

text \<open>
  The rest of the block: the read of the current curve point and the update of the
  live acceleration and deceleration registers, each behind its own bounds check.
\<close>

definition writeConfig_live :: "hardware \<Rightarrow> FanConfigData \<Rightarrow> machine \<Rightarrow> machine" where
  "writeConfig_live hw configData s =
     (let (acc_dec_time_target_idx, s) = direct_ec_read hw FAN_CUR_POINT s;
          s = (if unat acc_dec_time_target_idx < length (FanConfigData.acc_time configData)
               then
                 let s = direct_ec_write FAN1_CUR_ACC
                           (FanConfigData.acc_time configData ! unat acc_dec_time_target_idx) s
                 in direct_ec_write FAN2_CUR_ACC
                      (FanConfigData.acc_time configData ! unat acc_dec_time_target_idx) s
               else setError (''Warning: Invalid ACC_time target index read from EC: ''
                              @ to_string (unat acc_dec_time_target_idx)) s);
          s = (if unat acc_dec_time_target_idx < length (FanConfigData.dec_time configData)
               then
                 let s = direct_ec_write FAN1_CUR_DEC
                           (FanConfigData.dec_time configData ! unat acc_dec_time_target_idx) s
                 in direct_ec_write FAN2_CUR_DEC
                      (FanConfigData.dec_time configData ! unat acc_dec_time_target_idx) s
               else setError (''Warning: Invalid DEC_time target index read from EC: ''
                              @ to_string (unat acc_dec_time_target_idx)) s)
      in s)"

definition writeConfig :: "hardware \<Rightarrow> FanConfigData \<Rightarrow> machine \<Rightarrow> bool \<times> machine" where
  "writeConfig hw configData s =
     (if \<not> winring_init_ok (ctrl s)
      then (False, setError ''WinRing0 not initialized, cannot write config.'' s)
      else
        let s = setError [] s
        in if bad_sizes configData
           then (False, setError ''Invalid configuration data: All arrays must have size 10.'' s)
           else
             let s = writeConfig_tables hw configData s;
                 s = writeConfig_live hw configData s
             in (True, s))"

section \<open>Event sequences and sample inputs\<close>

text \<open>
  The twelve port writes of one single-byte write transaction: the high address byte
  through index register \<open>0x11\<close>, the low one through \<open>0x10\<close>, then data register
  \<open>0x12\<close> and the value.
\<close>

definition ec_write_transaction :: "16 word \<Rightarrow> 8 word \<Rightarrow> io_event list" where
  "ec_write_transaction addr d =
     [WritePort 0x4E 0x2E, WritePort 0x4F 0x11, WritePort 0x4E 0x2F,
      WritePort 0x4F (ucast (drop_bit 8 addr)),
      WritePort 0x4E 0x2E, WritePort 0x4F 0x10, WritePort 0x4E 0x2F,
      WritePort 0x4F (ucast addr),
      WritePort 0x4E 0x2E, WritePort 0x4F 0x12, WritePort 0x4E 0x2F,
      WritePort 0x4F d]"

text \<open>The loader calls of \<^verbatim>\<open>initialize\<close> up to the last \<^verbatim>\<open>GetProcAddress\<close>.\<close>

definition acquisition :: "handle \<Rightarrow> io_event list" where
  "acquisition h =
     [LoadLibraryA ''winring_wrapper.dll'',
      GetProcAddress h ''LoadWinRing0'', GetProcAddress h ''InitWinRing0'',
      GetProcAddress h ''ReadPort'', GetProcAddress h ''WritePort'',
      GetProcAddress h ''GetStatus'', GetProcAddress h ''DeinitWinRing0'']"

text \<open>
  The condition under which \<^verbatim>\<open>initialize\<close> gives up after the lookups: some export
  was not found. And the controller with the six pointers as the lookups set them.
\<close>

definition some_export_missing :: "loader \<Rightarrow> bool" where
  "some_export_missing env =
     (get_proc_address env ''LoadWinRing0'' = None
      \<or> get_proc_address env ''InitWinRing0'' = None
      \<or> get_proc_address env ''ReadPort'' = None
      \<or> get_proc_address env ''WritePort'' = None
      \<or> get_proc_address env ''GetStatus'' = None
      \<or> get_proc_address env ''DeinitWinRing0'' = None)"

definition resolved_ctrl :: "loader \<Rightarrow> FanController \<Rightarrow> FanController" where
  "resolved_ctrl env c =
     c\<lparr>pLoadWinRing0 := get_proc_address env ''LoadWinRing0'',
       pInitWinRing0 := get_proc_address env ''InitWinRing0'',
       pReadPort := get_proc_address env ''ReadPort'',
       pWritePort := get_proc_address env ''WritePort'',
       pGetStatus := get_proc_address env ''GetStatus'',
       pDeinitWinRing0 := get_proc_address env ''DeinitWinRing0''\<rparr>"

text \<open>A controller right after construction, with nothing called yet.\<close>

definition fresh_machine :: machine where
  "fresh_machine = \<lparr>ctrl = FanController_new, trace = []\<rparr>"

text \<open>A controller as a successful \<^verbatim>\<open>initialize\<close> leaves it.\<close>

definition ready_machine :: machine where
  "ready_machine =
     \<lparr>ctrl = \<lparr> hWinRing0Wrapper = Some 1, pLoadWinRing0 = Some 1, pInitWinRing0 = Some 1,
               pReadPort = Some 1, pWritePort = Some 1, pGetStatus = Some 1,
               pDeinitWinRing0 = Some 1, winring_init_ok = True, lastError = [] \<rparr>,
      trace = []\<rparr>"

text \<open>A loader for which every step succeeds, and one whose driver load fails.\<close>

definition loader_ok :: loader where
  "loader_ok = \<lparr> load_library = Inr 1, get_proc_address = (\<lambda>name. Some 1),
                 load_winring0 = True, init_winring0 = True, get_status = 0 \<rparr>"

definition loader_driver_fails :: loader where
  "loader_driver_fails = \<lparr> load_library = Inr 1, get_proc_address = (\<lambda>name. Some 1),
                           load_winring0 = False, init_winring0 = False, get_status = 0 \<rparr>"

text \<open>Hardware that answers every read with the same byte.\<close>

definition hw_const :: "8 word \<Rightarrow> hardware" where
  "hw_const v = (\<lambda>tr port. v)"

section \<open>Properties of the EC transaction\<close>

lemma ucast_low_byte: "(ucast (addr AND (0xFF :: 16 word)) :: 8 word) = ucast addr"
proof -
  have m: "(0xFF :: 16 word) = mask 8"
    by (simp add: mask_eq_exp_minus_1)
  show ?thesis
    unfolding m by (rule bit_word_eqI) (auto simp: bit_simps)
qed

lemma write_io_port_byte_ready:
  "winring_init_ok (ctrl s) \<Longrightarrow> pWritePort (ctrl s) \<noteq> None \<Longrightarrow>
   write_io_port_byte port val s = s\<lparr>trace := trace s @ [WritePort port val]\<rparr>"
  by (simp add: write_io_port_byte_def)

lemma direct_ec_write_ready:
  "winring_init_ok (ctrl s) \<Longrightarrow> pWritePort (ctrl s) \<noteq> None \<Longrightarrow>
   direct_ec_write addr d s = s\<lparr>trace := trace s @ ec_write_transaction addr d\<rparr>"
  by (simp add: direct_ec_write_def write_io_port_byte_ready ec_write_transaction_def
      EC_ADDR_PORT_def EC_DATA_PORT_def ucast_low_byte)

lemma write_io_port_byte_ctrl [simp]: "ctrl (write_io_port_byte port val s) = ctrl s"
  by (simp add: write_io_port_byte_def)

lemma read_io_port_byte_ctrl [simp]: "ctrl (snd (read_io_port_byte hw port s)) = ctrl s"
  by (simp add: read_io_port_byte_def)

lemma direct_ec_write_ctrl [simp]: "ctrl (direct_ec_write addr d s) = ctrl s"
  by (simp add: direct_ec_write_def Let_def)

lemma direct_ec_read_ctrl [simp]: "ctrl (snd (direct_ec_read hw addr s)) = ctrl s"
  by (simp add: direct_ec_read_def Let_def)

lemma direct_ec_read_const:
  "winring_init_ok (ctrl s) \<Longrightarrow> pReadPort (ctrl s) \<noteq> None \<Longrightarrow>
   fst (direct_ec_read (hw_const v) addr s) = v"
  by (auto simp: direct_ec_read_def read_io_port_byte_def hw_const_def Let_def)

lemma foldl_write_ctrl:
  "ctrl (foldl (\<lambda>s i. direct_ec_write (f i) (g i) s) s xs) = ctrl s"
  by (induction xs arbitrary: s) simp_all

lemma direct_ec_write_array_ctrl [simp]: "ctrl (direct_ec_write_array base data s) = ctrl s"
  by (simp add: direct_ec_write_array_def foldl_write_ctrl)

lemma write_array_prefix:
  assumes "winring_init_ok (ctrl s)" "pWritePort (ctrl s) \<noteq> None"
  shows "foldl (\<lambda>s i. direct_ec_write (base + of_nat i) (data ! i) s) s [0..<n]
       = s\<lparr>trace := trace s
             @ concat (map (\<lambda>i. ec_write_transaction (base + of_nat i) (data ! i)) [0..<n])\<rparr>"
proof (induction n)
  case 0
  show ?case by simp
next
  case (Suc n)
  show ?case using assms by (simp add: Suc direct_ec_write_ready)
qed

lemma zip_upt_nth: "zip [0..<length xs] xs = map (\<lambda>i. (i, xs ! i)) [0..<length xs]"
proof -
  have "zip [0..<length xs] xs = zip [0..<length xs] (map ((!) xs) [0..<length xs])"
    by (simp only: map_nth)
  also have "\<dots> = map (\<lambda>i. (i, xs ! i)) [0..<length xs]"
    by (simp only: zip_map2 zip_same_conv_map map_map comp_def prod.case)
  finally show ?thesis .
qed

lemma write_array_as_fold:
  "direct_ec_write_array addr_base data s
     = foldl (\<lambda>s (i, d). direct_ec_write (addr_base + of_nat i) d s) s
         (zip [0..<length data] data)"
  by (simp add: direct_ec_write_array_def zip_upt_nth foldl_map)

section \<open>Properties of \<^verbatim>\<open>writeConfig\<close>\<close>

lemma setError_setError [simp]: "setError a (setError b s) = setError a s"
  by (simp add: setError_def)

lemma writeConfig_tables_ctrl [simp]: "ctrl (writeConfig_tables hw configData s) = ctrl s"
  by (simp add: writeConfig_tables_def Let_def split_beta)

lemma writeConfig_live_skip:
  assumes "direct_ec_read hw FAN_CUR_POINT s = (idx, s1)"
    and "length (FanConfigData.acc_time configData) \<le> unat idx"
    and "length (FanConfigData.dec_time configData) \<le> unat idx"
  shows "writeConfig_live hw configData s
       = setError (''Warning: Invalid DEC_time target index read from EC: ''
                   @ to_string (unat idx)) s1"
  using assms by (simp add: writeConfig_live_def)

lemma writeConfig_live_lastError:
  "lastError (ctrl (writeConfig_live hw configData s)) = lastError (ctrl s)
   \<or> (\<exists>n. lastError (ctrl (writeConfig_live hw configData s))
            = ''Warning: Invalid ACC_time target index read from EC: '' @ to_string n)
   \<or> (\<exists>n. lastError (ctrl (writeConfig_live hw configData s))
            = ''Warning: Invalid DEC_time target index read from EC: '' @ to_string n)"
proof (cases "direct_ec_read hw FAN_CUR_POINT s")
  case (Pair idx s1)
  have c: "ctrl s1 = ctrl s"
    using direct_ec_read_ctrl[of hw FAN_CUR_POINT s] Pair by simp
  show ?thesis
    using c by (auto simp add: writeConfig_live_def Pair Let_def setError_def)
qed

lemma default_sizes_ok: "\<not> bad_sizes FanConfigData_default"
  by (simp add: bad_sizes_def FanConfigData_default_def)

lemma ready_machine_init: "winring_init_ok (ctrl ready_machine)"
  by (simp add: ready_machine_def)

section \<open>Claims about \<^verbatim>\<open>writeConfig\<close>, \<^verbatim>\<open>readStatus\<close> and the EC transaction\<close>

text \<open>
  C1. On an initialized controller, \<^verbatim>\<open>writeConfig\<close> with a configuration in which at
  least one of the ten tables is not of size 10 fails: it returns false, the last error
  is the invalid-configuration message (the code has no error kinds, only this text),
  and the events are as before the call, so no port was read or written. No other
  member of the controller changes.
\<close>

theorem writeConfig_bad_sizes_rejected:
  assumes "winring_init_ok (ctrl s)" "bad_sizes configData"
  shows "writeConfig hw configData s
           = (False, s\<lparr>ctrl := (ctrl s)\<lparr>lastError :=
                 ''Invalid configuration data: All arrays must have size 10.''\<rparr>\<rparr>)
       \<and> trace (snd (writeConfig hw configData s)) = trace s"
  using assms by (simp add: writeConfig_def setError_def)

theorem writeConfig_bad_sizes_rejected_witness:
  "writeConfig (hw_const 0) (FanConfigData_default\<lparr>FanConfigData.dec_time := [1, 2, 3]\<rparr>)
       ready_machine
     = (False, ready_machine\<lparr>ctrl := (ctrl ready_machine)\<lparr>lastError :=
           ''Invalid configuration data: All arrays must have size 10.''\<rparr>\<rparr>)
   \<and> trace (snd (writeConfig (hw_const 0)
                    (FanConfigData_default\<lparr>FanConfigData.dec_time := [1, 2, 3]\<rparr>)
                    ready_machine)) = []"
proof -
  have b: "bad_sizes (FanConfigData_default\<lparr>FanConfigData.dec_time := [1, 2, 3]\<rparr>)"
    by (simp add: bad_sizes_def FanConfigData_default_def)
  show ?thesis
    using writeConfig_bad_sizes_rejected [OF ready_machine_init b, of "hw_const 0"]
    by (simp add: ready_machine_def)
qed

text \<open>
  C2. On an initialized controller with both port exports resolved, the single-byte
  read of address \<open>0xC580 + 3 = 0xC583\<close> issues exactly these calls, in this order:
  select index register \<open>0x11\<close> and write the high byte \<open>0xC5\<close>, select index
  register \<open>0x10\<close> and write the low byte \<open>0x83\<close>, select data register \<open>0x12\<close>,
  then one read; every select goes to the address port \<open>0x4E\<close> and every value through
  the data port \<open>0x4F\<close>. The result is what the hardware answers to that read.
\<close>

theorem direct_ec_read_C583:
  assumes "winring_init_ok (ctrl s)" "pWritePort (ctrl s) \<noteq> None"
    "pReadPort (ctrl s) \<noteq> None"
  shows "CPU_TEMP + 3 = 0xC583
       \<and> direct_ec_read hw (CPU_TEMP + 3) s =
          (hw (trace s @
               [WritePort 0x4E 0x2E, WritePort 0x4F 0x11, WritePort 0x4E 0x2F, WritePort 0x4F 0xC5,
                WritePort 0x4E 0x2E, WritePort 0x4F 0x10, WritePort 0x4E 0x2F, WritePort 0x4F 0x83,
                WritePort 0x4E 0x2E, WritePort 0x4F 0x12, WritePort 0x4E 0x2F]) 0x4F,
           s\<lparr>trace := trace s @
               [WritePort 0x4E 0x2E, WritePort 0x4F 0x11, WritePort 0x4E 0x2F, WritePort 0x4F 0xC5,
                WritePort 0x4E 0x2E, WritePort 0x4F 0x10, WritePort 0x4E 0x2F, WritePort 0x4F 0x83,
                WritePort 0x4E 0x2E, WritePort 0x4F 0x12, WritePort 0x4E 0x2F,
                ReadPort 0x4F]\<rparr>)"
  using assms
  by (auto simp: direct_ec_read_def write_io_port_byte_ready read_io_port_byte_def
      EC_ADDR_PORT_def EC_DATA_PORT_def CPU_TEMP_def Let_def)

theorem direct_ec_read_C583_witness:
  "direct_ec_read (hw_const 7) (CPU_TEMP + 3) ready_machine =
     (7, ready_machine\<lparr>trace :=
          [WritePort 0x4E 0x2E, WritePort 0x4F 0x11, WritePort 0x4E 0x2F, WritePort 0x4F 0xC5,
           WritePort 0x4E 0x2E, WritePort 0x4F 0x10, WritePort 0x4E 0x2F, WritePort 0x4F 0x83,
           WritePort 0x4E 0x2E, WritePort 0x4F 0x12, WritePort 0x4E 0x2F,
           ReadPort 0x4F]\<rparr>)"
proof -
  have w: "pWritePort (ctrl ready_machine) \<noteq> None" and r: "pReadPort (ctrl ready_machine) \<noteq> None"
    by (simp_all add: ready_machine_def)
  show ?thesis
    using direct_ec_read_C583 [OF ready_machine_init w r, of "hw_const 7"]
    by (simp add: hw_const_def ready_machine_def)
qed

text \<open>
  C3. On a controller that is not initialized, \<^verbatim>\<open>readStatus\<close> and \<^verbatim>\<open>writeConfig\<close>
  both fail: each returns false and records its not-initialized message as last error.
  The events are as before the call (no port read, no port write), and the caller's
  status structure is returned as it was passed.
\<close>

theorem uninitialized_calls_fail:
  assumes "\<not> winring_init_ok (ctrl s)"
  shows "readStatus hw statusData s
           = (False, statusData, s\<lparr>ctrl := (ctrl s)\<lparr>lastError :=
                 ''WinRing0 not initialized, cannot read status.''\<rparr>\<rparr>)
       \<and> writeConfig hw configData s
           = (False, s\<lparr>ctrl := (ctrl s)\<lparr>lastError :=
                 ''WinRing0 not initialized, cannot write config.''\<rparr>\<rparr>)"
  using assms by (simp add: readStatus_def writeConfig_def setError_def)

theorem uninitialized_calls_fail_witness:
  "readStatus (hw_const 9) FanStatusData_default fresh_machine
     = (False, FanStatusData_default,
        \<lparr>ctrl = FanController_new\<lparr>lastError :=
             ''WinRing0 not initialized, cannot read status.''\<rparr>, trace = []\<rparr>)
   \<and> writeConfig (hw_const 9) FanConfigData_default fresh_machine
     = (False,
        \<lparr>ctrl = FanController_new\<lparr>lastError :=
             ''WinRing0 not initialized, cannot write config.''\<rparr>, trace = []\<rparr>)"
proof -
  have u: "\<not> winring_init_ok (ctrl fresh_machine)"
    by (simp add: fresh_machine_def FanController_new_def)
  show ?thesis
    using uninitialized_calls_fail [OF u, of "hw_const 9" FanStatusData_default FanConfigData_default]
    by (simp add: fresh_machine_def)
qed

text \<open>
  C4. On an initialized controller and for a configuration whose ten tables all have
  size 10: when the byte read from the current-curve-point register, after the tables
  and the target duties were written, is 10 or more, \<^verbatim>\<open>writeConfig\<close> returns true, the
  events end with that read (none of the four live acceleration and deceleration
  registers is written), and the last error is the warning text followed by the
  decimal digits of the index.
\<close>

theorem writeConfig_index_out_of_range:
  assumes "winring_init_ok (ctrl s)" "\<not> bad_sizes configData"
    and "direct_ec_read hw FAN_CUR_POINT (writeConfig_tables hw configData (setError [] s))
           = (idx, s1)"
    and "10 \<le> unat idx"
  shows "writeConfig hw configData s
           = (True, s1\<lparr>ctrl := (ctrl s1)\<lparr>lastError :=
                 ''Warning: Invalid DEC_time target index read from EC: ''
                 @ to_string (unat idx)\<rparr>\<rparr>)
       \<and> trace (snd (writeConfig hw configData s)) = trace s1"
proof -
  from assms(2) have len: "length (FanConfigData.acc_time configData) = 10"
      "length (FanConfigData.dec_time configData) = 10"
    by (simp_all add: bad_sizes_def)
  have "writeConfig_live hw configData (writeConfig_tables hw configData (setError [] s))
       = setError (''Warning: Invalid DEC_time target index read from EC: ''
                   @ to_string (unat idx)) s1"
    using assms(3,4) len by (intro writeConfig_live_skip) simp_all
  then show ?thesis
    using assms(1,2) by (simp add: writeConfig_def Let_def setError_def)
qed

theorem writeConfig_index_out_of_range_witness:
  "fst (writeConfig (hw_const 255) FanConfigData_default ready_machine) = True
   \<and> lastError (ctrl (snd (writeConfig (hw_const 255) FanConfigData_default ready_machine)))
       = ''Warning: Invalid DEC_time target index read from EC: 255''"
proof -
  let ?t = "writeConfig_tables (hw_const 255) FanConfigData_default (setError [] ready_machine)"
  have "fst (direct_ec_read (hw_const 255) FAN_CUR_POINT ?t) = 255"
    by (rule direct_ec_read_const) (simp_all add: setError_def ready_machine_def)
  then have r: "direct_ec_read (hw_const 255) FAN_CUR_POINT ?t
                  = (255, snd (direct_ec_read (hw_const 255) FAN_CUR_POINT ?t))"
    by (metis prod.collapse)
  have i: "10 \<le> unat (255 :: 8 word)" by simp
  show ?thesis
    using writeConfig_index_out_of_range [OF ready_machine_init default_sizes_ok r i]
    by (simp add: to_string.simps digit_char_def)
qed

section \<open>The percentage of \<^verbatim>\<open>readStatus\<close>\<close>

lemma bit_length_lower: "0 < n \<Longrightarrow> 2 ^ (bit_length n - 1) \<le> n"
proof (induction n rule: bit_length.induct)
  case (1 n)
  show ?case
  proof (cases "n div 2 = 0")
    case True
    with 1 show ?thesis by (simp add: bit_length.simps[of n] bit_length.simps[of 0])
  next
    case False
    then have "2 ^ (bit_length (n div 2) - 1) \<le> n div 2"
      using 1 by simp
    moreover have "0 < bit_length (n div 2)"
      using False by (simp add: bit_length.simps[of "n div 2"])
    ultimately have "2 ^ bit_length (n div 2) \<le> 2 * (n div 2)"
      by (cases "bit_length (n div 2)") simp_all
    then show ?thesis
      using 1 by (simp add: bit_length.simps[of n])
  qed
qed

lemma floor_log2_lower:
  assumes "1 \<le> x"
  shows "2 powi (floor_log2 x) \<le> x"
proof -
  let ?n = "nat \<lfloor>x\<rfloor>"
  have n: "0 < ?n" using assms by simp
  have k: "0 < bit_length ?n" using n by (simp add: bit_length.simps[of ?n])
  have "floor_log2 x = int (bit_length ?n - 1)"
    using assms k by (simp add: floor_log2_def)
  then have "2 powi (floor_log2 x) = (2::real) ^ (bit_length ?n - 1)"
    by simp
  also have "\<dots> = real (2 ^ (bit_length ?n - 1))" by simp
  also have "\<dots> \<le> real ?n"
    using bit_length_lower[OF n] by (simp only: of_nat_le_iff)
  also have "\<dots> \<le> x" using assms by linarith
  finally show ?thesis .
qed

lemma floor_log2_le_52:
  assumes "1 \<le> x" "x < 2 ^ 53"
  shows "floor_log2 x \<le> 52"
proof (rule ccontr)
  assume "\<not> floor_log2 x \<le> 52"
  then have "53 \<le> floor_log2 x" by simp
  then have "(2::real) powi 53 \<le> 2 powi (floor_log2 x)"
    by (intro power_int_increasing) simp_all
  also have "\<dots> \<le> x" by (rule floor_log2_lower[OF assms(1)])
  finally show False using assms(2) by simp
qed

lemma round_ties_even_lower: "\<lfloor>q\<rfloor> \<le> round_ties_even q"
  by (simp add: round_ties_even_def Let_def)

lemma round_ties_even_upper: "round_ties_even q \<le> \<lceil>q\<rceil>"
proof -
  have "\<lfloor>q\<rfloor> + 1 \<le> \<lceil>q\<rceil>" if "q - of_int \<lfloor>q\<rfloor> \<noteq> 0"
    using that by (metis ceiling_altdef diff_eq_eq add.commute add_0 order_refl)
  then show ?thesis
    by (auto simp: round_ties_even_def Let_def)
qed

text \<open>Below \<open>2\<^sup>5\<^sup>3\<close> the rounding is to a multiple of some \<open>1 / 2\<^sup>k\<close>.\<close>

lemma double_round_scaled:
  assumes "1 \<le> x" "x < 2 ^ 53"
  shows "\<exists>k. double_round x = real_of_int (round_ties_even (x * 2 ^ k)) / 2 ^ k"
proof -
  define e where "e = floor_log2 x - 52"
  have e: "e \<le> 0" using floor_log2_le_52[OF assms] by (simp add: e_def)
  have p: "(2::real) powi e = 1 / 2 ^ nat (- e)"
    using e by (simp add: power_int_def field_simps)
  have "double_round x = real_of_int (round_ties_even (x / 2 powi e)) * 2 powi e"
    using assms(1) by (simp add: double_round_def Let_def e_def)
  then have "double_round x = real_of_int (round_ties_even (x * 2 ^ nat (- e))) / 2 ^ nat (- e)"
    by (simp add: p)
  then show ?thesis by blast
qed

text \<open>So rounding never crosses an integer.\<close>

lemma double_round_ge_int:
  assumes "1 \<le> x" "x < 2 ^ 53" "real_of_int N \<le> x"
  shows "real_of_int N \<le> double_round x"
proof -
  obtain k where k: "double_round x = real_of_int (round_ties_even (x * 2 ^ k)) / 2 ^ k"
    using double_round_scaled[OF assms(1,2)] by blast
  have "real_of_int (N * 2 ^ k) \<le> x * 2 ^ k"
    using assms(3) by simp
  then have "N * 2 ^ k \<le> \<lfloor>x * 2 ^ k\<rfloor>"
    by (simp only: le_floor_iff)
  also have "\<dots> \<le> round_ties_even (x * 2 ^ k)" by (rule round_ties_even_lower)
  finally have "real_of_int (N * 2 ^ k) \<le> real_of_int (round_ties_even (x * 2 ^ k))"
    by (simp only: of_int_le_iff)
  then show ?thesis
    unfolding k by (simp add: field_simps)
qed

lemma double_round_le_int:
  assumes "1 \<le> x" "x < 2 ^ 53" "x \<le> real_of_int N"
  shows "double_round x \<le> real_of_int N"
proof -
  obtain k where k: "double_round x = real_of_int (round_ties_even (x * 2 ^ k)) / 2 ^ k"
    using double_round_scaled[OF assms(1,2)] by blast
  have "x * 2 ^ k \<le> real_of_int (N * 2 ^ k)"
    using assms(3) by simp
  then have "\<lceil>x * 2 ^ k\<rceil> \<le> N * 2 ^ k"
    by (simp only: ceiling_le_iff)
  with round_ties_even_upper[of "x * 2 ^ k"]
  have "round_ties_even (x * 2 ^ k) \<le> N * 2 ^ k" by linarith
  then have "real_of_int (round_ties_even (x * 2 ^ k)) \<le> real_of_int (N * 2 ^ k)"
    by (simp only: of_int_le_iff)
  then show ?thesis
    unfolding k by (simp add: field_simps)
qed

lemma percent_ge_100:
  fixes a b :: nat
  assumes "0 < b" "b < a" "a < 65536"
  shows "100 \<le> double_to_int (double_mul (double_div (real a) (real b)) 100)"
proof -
  define x where "x = real a / real b"
  have x1: "1 \<le> x" using assms by (simp add: x_def)
  have "x \<le> real a"
    using assms(1) by (simp add: x_def field_simps mult_le_cancel_left1)
  then have x2: "x \<le> real_of_int 65536" using assms(3) by simp
  then have x3: "x < 2 ^ 53" by simp
  define d where "d = double_round x"
  have d1: "1 \<le> d" using double_round_ge_int[OF x1 x3, of 1] x1 by (simp add: d_def)
  have d2: "d \<le> 65536" using double_round_le_int[OF x1 x3 x2] by (simp add: d_def)
  have y1: "1 \<le> d * 100" using d1 by simp
  have y2: "d * 100 < 2 ^ 53" using d2 by simp
  have y3: "real_of_int 100 \<le> d * 100" using d1 by simp
  have "100 \<le> double_round (d * 100)"
    using double_round_ge_int[OF y1 y2 y3] by simp
  then have "100 \<le> double_to_int (double_round (d * 100))"
    by (simp add: double_to_int_def le_floor_iff)
  then show ?thesis
    by (simp add: double_mul_def double_div_def d_def x_def)
qed

lemma fan_percent_ge_100:
  assumes "0 < unat max_rpm" "unat max_rpm < unat speed"
  shows "100 \<le> fan_percent max_rpm speed"
proof -
  have s: "unat speed < 65536" using unsigned_less[of speed, where ?'a = nat] by simp
  show ?thesis
    using percent_ge_100[OF assms s] assms(1) by (simp only: fan_percent_def if_True)
qed

text \<open>
  For fan 1 the percentage passes 100 between the speeds 5251 and 5252. The rounding of
  the quotient shows at speed 2964: the exact percentage is 57, the doubles give 56.
\<close>

lemma fan_percent_samples:
  "fan_percent MAX_FAN1_RPM 5251 = 100" "fan_percent MAX_FAN1_RPM 5252 = 101"
  "fan_percent MAX_FAN1_RPM 2964 = 56" "fan_percent MAX_FAN2_RPM 65535 = 1310"
  by (simp_all add: fan_percent_def MAX_FAN1_RPM_def MAX_FAN2_RPM_def double_mul_def
      double_div_def double_round_def floor_log2_def round_ties_even_def double_to_int_def
      bit_length.simps Let_def)

lemma fan_percent_zero: "fan_percent max_rpm 0 = 0"
  by (simp add: fan_percent_def double_mul_def double_div_def double_round_def double_to_int_def)

lemmas double_eval = fan_percent_def MAX_FAN1_RPM_def MAX_FAN2_RPM_def double_mul_def
  double_div_def double_round_def floor_log2_def round_ties_even_def double_to_int_def
  bit_length.simps Let_def

lemma readStatus_percent:
  assumes "winring_init_ok (ctrl s)" "readStatus hw st s = (ok, st', s')"
  shows "ok \<and> fan1_percent st' = fan_percent MAX_FAN1_RPM (fan1_speed st')
       \<and> fan2_percent st' = fan_percent MAX_FAN2_RPM (fan2_speed st')"
  using assms by (auto simp: readStatus_def Let_def split_beta)

text \<open>
  C5, as the code has it. The percentage is the double quotient times 100 with the
  fraction dropped: speed 2600 against the maximum 5200 gives 50, speed 0 gives 0 for
  any maximum, and the value is not clamped (speed 10400 gives 200). A speed above the
  maximum gives at least 100; it need not give more, since the fraction is dropped and
  the speeds just above the maximum still give 100. \<^verbatim>\<open>readStatus\<close> stores exactly
  this value for each fan, from the speed it has just read.
\<close>

theorem percent_derivation:
  "fan_percent MAX_FAN1_RPM 2600 = 50
   \<and> fan_percent max_rpm 0 = 0
   \<and> (unat MAX_FAN1_RPM < unat speed \<longrightarrow> 100 \<le> fan_percent MAX_FAN1_RPM speed)
   \<and> (unat MAX_FAN2_RPM < unat speed \<longrightarrow> 100 \<le> fan_percent MAX_FAN2_RPM speed)
   \<and> fan_percent MAX_FAN1_RPM 10400 = 200
   \<and> (winring_init_ok (ctrl s) \<and> readStatus hw st s = (ok, st', s') \<longrightarrow>
        fan1_percent st' = fan_percent MAX_FAN1_RPM (fan1_speed st')
        \<and> fan2_percent st' = fan_percent MAX_FAN2_RPM (fan2_speed st'))"
proof -
  have a: "fan_percent MAX_FAN1_RPM 2600 = 50"
    by (simp add: double_eval)
  have b: "fan_percent MAX_FAN1_RPM 10400 = 200"
    by (simp add: double_eval)
  have c: "unat MAX_FAN1_RPM < unat speed \<longrightarrow> 100 \<le> fan_percent MAX_FAN1_RPM speed"
    using fan_percent_ge_100[of MAX_FAN1_RPM speed] by (simp add: MAX_FAN1_RPM_def)
  have d: "unat MAX_FAN2_RPM < unat speed \<longrightarrow> 100 \<le> fan_percent MAX_FAN2_RPM speed"
    using fan_percent_ge_100[of MAX_FAN2_RPM speed] by (simp add: MAX_FAN2_RPM_def)
  show ?thesis
    using a b c d fan_percent_zero[of max_rpm] readStatus_percent[of s hw st ok st' s']
    by blast
qed

theorem percent_derivation_witness:
  "unat MAX_FAN1_RPM < unat (10400 :: 16 word)
   \<and> unat MAX_FAN2_RPM < unat (10400 :: 16 word)
   \<and> 100 \<le> fan_percent MAX_FAN1_RPM 10400
   \<and> 100 \<le> fan_percent MAX_FAN2_RPM 10400
   \<and> fan1_percent (fst (snd (readStatus (hw_const 0) FanStatusData_default ready_machine)))
       = fan_percent MAX_FAN1_RPM
           (fan1_speed (fst (snd (readStatus (hw_const 0) FanStatusData_default ready_machine))))"
proof -
  have m: "unat MAX_FAN1_RPM < unat (10400 :: 16 word)"
      "unat MAX_FAN2_RPM < unat (10400 :: 16 word)"
    by (simp_all add: MAX_FAN1_RPM_def MAX_FAN2_RPM_def)
  let ?r = "readStatus (hw_const 0) FanStatusData_default ready_machine"
  have r: "?r = (fst ?r, fst (snd ?r), snd (snd ?r))"
    by simp
  show ?thesis
    using m ready_machine_init r
      percent_derivation [of 0 10400 ready_machine "hw_const 0" FanStatusData_default
        "fst ?r" "fst (snd ?r)" "snd (snd ?r)"]
    by blast
qed

text \<open>
  C5 as stated fails: speed 5201 is above the maximum 5200 of fan 1, and its percentage
  is 100, not more.
\<close>

theorem percent_above_max_counterexample:
  "\<not> (unat MAX_FAN1_RPM < unat (5201 :: 16 word) \<longrightarrow> 100 < fan_percent MAX_FAN1_RPM 5201)"
proof -
  have "fan_percent MAX_FAN1_RPM 5201 = 100"
    by (simp add: double_eval)
  then show ?thesis
    by (simp add: MAX_FAN1_RPM_def)
qed

section \<open>The outcomes of \<^verbatim>\<open>initialize\<close>\<close>

lemmas init_defs = initialize_def setError_def emit_def resolve_def free_wrapper_def Let_def

lemma initialize_no_library:
  assumes "\<not> winring_init_ok (ctrl s)" "load_library env = Inl code"
  shows "initialize env s =
     (False, \<lparr>ctrl = (ctrl s)\<lparr>hWinRing0Wrapper := None,
                 lastError := ''Could not load winring_wrapper.dll. Error code: ''
                   @ to_string code
                   @ ''. Ensure DLL and dependencies (WinRing0x64.dll, MinGW runtimes) are present.''\<rparr>,
              trace = trace s @ [LoadLibraryA ''winring_wrapper.dll'']\<rparr>)"
  using assms by (simp add: init_defs cong: let_weak_cong)

lemma initialize_export_missing:
  assumes "\<not> winring_init_ok (ctrl s)" "load_library env = Inr h" "some_export_missing env"
  shows "initialize env s =
     (False, \<lparr>ctrl = (resolved_ctrl env (ctrl s))\<lparr>hWinRing0Wrapper := None,
                 lastError := ''Could not get one or more function addresses from wrapper DLL.''\<rparr>,
              trace = trace s @ acquisition h @ [FreeLibrary h]\<rparr>)"
  using assms by (simp add: init_defs some_export_missing_def resolved_ctrl_def acquisition_def cong: let_weak_cong)

lemma initialize_load_fails:
  assumes "\<not> winring_init_ok (ctrl s)" "load_library env = Inr h" "\<not> some_export_missing env"
    "\<not> load_winring0 env"
  shows "initialize env s =
     (False, \<lparr>ctrl = (resolved_ctrl env (ctrl s))\<lparr>hWinRing0Wrapper := None,
                 lastError := ''LoadWinRing0() via wrapper failed.''\<rparr>,
              trace = trace s @ acquisition h @ [Call_LoadWinRing0, FreeLibrary h]\<rparr>)"
proof -
  from assms(3) obtain a b c d e f where g:
    "get_proc_address env ''LoadWinRing0'' = Some a" "get_proc_address env ''InitWinRing0'' = Some b"
    "get_proc_address env ''ReadPort'' = Some c" "get_proc_address env ''WritePort'' = Some d"
    "get_proc_address env ''GetStatus'' = Some e" "get_proc_address env ''DeinitWinRing0'' = Some f"
    by (auto simp: some_export_missing_def)
  show ?thesis
    using assms(1,2,4-) by (simp add: init_defs g resolved_ctrl_def acquisition_def cong: let_weak_cong)
qed

lemma initialize_init_fails:
  assumes "\<not> winring_init_ok (ctrl s)" "load_library env = Inr h" "\<not> some_export_missing env"
    "load_winring0 env" "\<not> init_winring0 env"
  shows "initialize env s =
     (False, \<lparr>ctrl = (resolved_ctrl env (ctrl s))\<lparr>hWinRing0Wrapper := None,
                 lastError := ''InitWinRing0() via wrapper failed. Status: ''
                   @ to_string (unat (get_status env))\<rparr>,
              trace = trace s @ acquisition h
                 @ [Call_LoadWinRing0, Call_InitWinRing0, Call_GetStatus, FreeLibrary h]\<rparr>)"
proof -
  from assms(3) obtain a b c d e f where g:
    "get_proc_address env ''LoadWinRing0'' = Some a" "get_proc_address env ''InitWinRing0'' = Some b"
    "get_proc_address env ''ReadPort'' = Some c" "get_proc_address env ''WritePort'' = Some d"
    "get_proc_address env ''GetStatus'' = Some e" "get_proc_address env ''DeinitWinRing0'' = Some f"
    by (auto simp: some_export_missing_def)
  show ?thesis
    using assms(1,2,4-) by (simp add: init_defs g resolved_ctrl_def acquisition_def cong: let_weak_cong)
qed

lemma initialize_succeeds:
  assumes "\<not> winring_init_ok (ctrl s)" "load_library env = Inr h" "\<not> some_export_missing env"
    "load_winring0 env" "init_winring0 env"
  shows "initialize env s =
     (True, \<lparr>ctrl = (resolved_ctrl env (ctrl s))\<lparr>hWinRing0Wrapper := Some h,
                 winring_init_ok := True, lastError := []\<rparr>,
              trace = trace s @ acquisition h @ [Call_LoadWinRing0, Call_InitWinRing0]\<rparr>)"
proof -
  from assms(3) obtain a b c d e f where g:
    "get_proc_address env ''LoadWinRing0'' = Some a" "get_proc_address env ''InitWinRing0'' = Some b"
    "get_proc_address env ''ReadPort'' = Some c" "get_proc_address env ''WritePort'' = Some d"
    "get_proc_address env ''GetStatus'' = Some e" "get_proc_address env ''DeinitWinRing0'' = Some f"
    by (auto simp: some_export_missing_def)
  show ?thesis
    using assms(1,2,4-) by (simp add: init_defs g resolved_ctrl_def acquisition_def cong: let_weak_cong)
qed

lemma fresh_machine_uninit: "\<not> winring_init_ok (ctrl fresh_machine)"
  by (simp add: fresh_machine_def FanController_new_def)

lemma initialize_again: "winring_init_ok (ctrl s) \<Longrightarrow> initialize env s = (True, s)"
  by (simp add: initialize_def)

lemma loader_cases:
  obtains (no_library) code where "load_library env = Inl code"
  | (export_missing) h where "load_library env = Inr h" "some_export_missing env"
  | (load_fails) h where "load_library env = Inr h" "\<not> some_export_missing env"
      "\<not> load_winring0 env"
  | (init_fails) h where "load_library env = Inr h" "\<not> some_export_missing env"
      "load_winring0 env" "\<not> init_winring0 env"
  | (succeeds) h where "load_library env = Inr h" "\<not> some_export_missing env"
      "load_winring0 env" "init_winring0 env"
  by (cases "load_library env") blast+


lemma loader_ok_facts:
  "load_library loader_ok = Inr 1" "\<not> some_export_missing loader_ok"
  "load_winring0 loader_ok" "init_winring0 loader_ok"
  by (simp_all add: loader_ok_def some_export_missing_def)

lemma loader_driver_fails_facts:
  "load_library loader_driver_fails = Inr 1" "\<not> some_export_missing loader_driver_fails"
  "\<not> load_winring0 loader_driver_fails"
  by (simp_all add: loader_driver_fails_def some_export_missing_def)

lemma loader_driver_fails_exports: "get_proc_address loader_driver_fails name = Some 1"
  by (simp add: loader_driver_fails_def)

text \<open>
  A successful \<^verbatim>\<open>initialize\<close> leaves every guard of the port primitives open, and the
  sample initialized controller is what it returns for the sample loader.
\<close>

lemma initialize_success_ready:
  assumes "\<not> winring_init_ok (ctrl s)" "initialize env s = (True, s')"
  shows "winring_init_ok (ctrl s') \<and> hWinRing0Wrapper (ctrl s') \<noteq> None
       \<and> pReadPort (ctrl s') \<noteq> None \<and> pWritePort (ctrl s') \<noteq> None
       \<and> pDeinitWinRing0 (ctrl s') \<noteq> None"
proof (cases rule: loader_cases[of env])
  case (no_library code)
  from initialize_no_library[OF assms(1) this] assms(2) show ?thesis by simp
next
  case (export_missing h)
  from initialize_export_missing[OF assms(1) this] assms(2) show ?thesis by simp
next
  case (load_fails h)
  from initialize_load_fails[OF assms(1) this] assms(2) show ?thesis by simp
next
  case (init_fails h)
  from initialize_init_fails[OF assms(1) this] assms(2) show ?thesis by simp
next
  case (succeeds h)
  from initialize_succeeds[OF assms(1) this] assms(2)
  have "ctrl s' = (resolved_ctrl env (ctrl s))\<lparr>hWinRing0Wrapper := Some h,
                 winring_init_ok := True, lastError := []\<rparr>"
    by auto
  then show ?thesis
    using succeeds(2) by (simp add: resolved_ctrl_def some_export_missing_def)
qed

lemma ready_machine_reached:
  "initialize loader_ok fresh_machine
     = (True, ready_machine\<lparr>trace := acquisition 1 @ [Call_LoadWinRing0, Call_InitWinRing0]\<rparr>)"
  using initialize_succeeds[OF fresh_machine_uninit loader_ok_facts]
  by (simp add: resolved_ctrl_def fresh_machine_def FanController_new_def ready_machine_def
      loader_ok_def)

lemmas deinit_defs = deinitialize_def emit_def free_wrapper_def Let_def

section \<open>Claims about \<^verbatim>\<open>initialize\<close> and \<^verbatim>\<open>deinitialize\<close>\<close>

text \<open>
  C6. When \<^verbatim>\<open>initialize\<close> succeeds on a controller that was not initialized, its
  calls to the loader and the wrapper are one library load, the six symbol lookups, one
  driver load and one driver initialization. A second \<^verbatim>\<open>initialize\<close>, whatever the
  loader would answer, returns true and changes nothing: no further event, so over
  both calls each acquisition step happened exactly once.
\<close>

theorem initialize_idempotent:
  assumes "\<not> winring_init_ok (ctrl s)" "initialize env1 s = (True, s1)"
  shows "initialize env2 s1 = (True, s1)
       \<and> (\<exists>h. load_library env1 = Inr h
              \<and> trace s1 = trace s @ acquisition h @ [Call_LoadWinRing0, Call_InitWinRing0])"
proof (cases rule: loader_cases[of env1])
  case (no_library code)
  from initialize_no_library[OF assms(1) this] assms(2) show ?thesis by simp
next
  case (export_missing h)
  from initialize_export_missing[OF assms(1) this] assms(2) show ?thesis by simp
next
  case (load_fails h)
  from initialize_load_fails[OF assms(1) this] assms(2) show ?thesis by simp
next
  case (init_fails h)
  from initialize_init_fails[OF assms(1) this] assms(2) show ?thesis by simp
next
  case (succeeds h)
  from initialize_succeeds[OF assms(1) this] assms(2)
  have s1: "s1 = \<lparr>ctrl = (resolved_ctrl env1 (ctrl s))\<lparr>hWinRing0Wrapper := Some h,
                 winring_init_ok := True, lastError := []\<rparr>,
              trace = trace s @ acquisition h @ [Call_LoadWinRing0, Call_InitWinRing0]\<rparr>"
    by simp
  then have "winring_init_ok (ctrl s1)" by simp
  then have "initialize env2 s1 = (True, s1)" by (rule initialize_again)
  moreover have "trace s1 = trace s @ acquisition h @ [Call_LoadWinRing0, Call_InitWinRing0]"
    using s1 by simp
  ultimately show ?thesis using succeeds(1) by blast
qed

theorem initialize_idempotent_witness:
  "initialize loader_driver_fails (snd (initialize loader_ok fresh_machine))
     = (True, snd (initialize loader_ok fresh_machine))
   \<and> trace (snd (initialize loader_ok fresh_machine))
       = acquisition 1 @ [Call_LoadWinRing0, Call_InitWinRing0]"
proof -
  have "fst (initialize loader_ok fresh_machine) = True"
    using initialize_succeeds[OF fresh_machine_uninit loader_ok_facts] by simp
  then have i: "initialize loader_ok fresh_machine = (True, snd (initialize loader_ok fresh_machine))"
    by (metis prod.collapse)
  show ?thesis
    using initialize_idempotent [OF fresh_machine_uninit i, of loader_driver_fails]
    by (auto simp: fresh_machine_def loader_ok_facts(1))
qed

text \<open>
  C7, as the code has it. When \<^verbatim>\<open>initialize\<close> fails on a controller that was not
  initialized, the controller stays uninitialized, the library handle is null and the
  last error is a non-empty text. If the library was loaded it is freed, as the last
  call, and \<^verbatim>\<open>DeinitWinRing0\<close> is not called; if it was not loaded nothing is freed.
  The six function pointers are not reset: after a failed load of the library they
  keep their previous values, otherwise they hold what \<^verbatim>\<open>GetProcAddress\<close> returned.
\<close>

theorem initialize_failure:
  assumes "\<not> winring_init_ok (ctrl s)" "initialize env s = (False, s')"
  shows "\<not> winring_init_ok (ctrl s') \<and> hWinRing0Wrapper (ctrl s') = None
       \<and> lastError (ctrl s') \<noteq> []
       \<and> (case load_library env of
             Inl code \<Rightarrow>
               trace s' = trace s @ [LoadLibraryA ''winring_wrapper.dll'']
               \<and> ctrl s' = (ctrl s)\<lparr>hWinRing0Wrapper := None, lastError := lastError (ctrl s')\<rparr>
           | Inr h \<Rightarrow>
               trace s' = trace s @ acquisition h
                 @ (if some_export_missing env then []
                    else if \<not> load_winring0 env then [Call_LoadWinRing0]
                    else [Call_LoadWinRing0, Call_InitWinRing0, Call_GetStatus])
                 @ [FreeLibrary h]
               \<and> ctrl s' = (resolved_ctrl env (ctrl s))\<lparr>hWinRing0Wrapper := None,
                                lastError := lastError (ctrl s')\<rparr>)"
proof (cases rule: loader_cases[of env])
  case (no_library code)
  from initialize_no_library[OF assms(1) this] assms(2)
  have "s' = \<lparr>ctrl = (ctrl s)\<lparr>hWinRing0Wrapper := None,
                 lastError := ''Could not load winring_wrapper.dll. Error code: ''
                   @ to_string code
                   @ ''. Ensure DLL and dependencies (WinRing0x64.dll, MinGW runtimes) are present.''\<rparr>,
              trace = trace s @ [LoadLibraryA ''winring_wrapper.dll'']\<rparr>"
    by simp
  then show ?thesis using assms(1) no_library by simp
next
  case (export_missing h)
  from initialize_export_missing[OF assms(1) this] assms(2)
  have "s' = \<lparr>ctrl = (resolved_ctrl env (ctrl s))\<lparr>hWinRing0Wrapper := None,
                 lastError := ''Could not get one or more function addresses from wrapper DLL.''\<rparr>,
              trace = trace s @ acquisition h @ [FreeLibrary h]\<rparr>"
    by simp
  then show ?thesis using assms(1) export_missing by (simp add: resolved_ctrl_def)
next
  case (load_fails h)
  from initialize_load_fails[OF assms(1) this] assms(2)
  have "s' = \<lparr>ctrl = (resolved_ctrl env (ctrl s))\<lparr>hWinRing0Wrapper := None,
                 lastError := ''LoadWinRing0() via wrapper failed.''\<rparr>,
              trace = trace s @ acquisition h @ [Call_LoadWinRing0, FreeLibrary h]\<rparr>"
    by simp
  then show ?thesis using assms(1) load_fails by (simp add: resolved_ctrl_def)
next
  case (init_fails h)
  from initialize_init_fails[OF assms(1) this] assms(2)
  have "s' = \<lparr>ctrl = (resolved_ctrl env (ctrl s))\<lparr>hWinRing0Wrapper := None,
                 lastError := ''InitWinRing0() via wrapper failed. Status: ''
                   @ to_string (unat (get_status env))\<rparr>,
              trace = trace s @ acquisition h
                 @ [Call_LoadWinRing0, Call_InitWinRing0, Call_GetStatus, FreeLibrary h]\<rparr>"
    by simp
  then show ?thesis using assms(1) init_fails by (simp add: resolved_ctrl_def)
next
  case (succeeds h)
  from initialize_succeeds[OF assms(1) this] assms(2) show ?thesis by simp
qed

theorem initialize_failure_witness:
  "initialize loader_driver_fails fresh_machine
     = (False,
        \<lparr>ctrl = \<lparr> hWinRing0Wrapper = None, pLoadWinRing0 = Some 1, pInitWinRing0 = Some 1,
                  pReadPort = Some 1, pWritePort = Some 1, pGetStatus = Some 1,
                  pDeinitWinRing0 = Some 1, winring_init_ok = False,
                  lastError = ''LoadWinRing0() via wrapper failed.'' \<rparr>,
         trace = acquisition 1 @ [Call_LoadWinRing0, FreeLibrary 1]\<rparr>)"
proof -
  have "fst (initialize loader_driver_fails fresh_machine) = False"
    using initialize_load_fails[OF fresh_machine_uninit loader_driver_fails_facts] by simp
  then have f: "initialize loader_driver_fails fresh_machine
                  = (False, snd (initialize loader_driver_fails fresh_machine))"
    by (metis prod.collapse)
  have e: "lastError (ctrl (snd (initialize loader_driver_fails fresh_machine)))
             = ''LoadWinRing0() via wrapper failed.''"
    using initialize_load_fails[OF fresh_machine_uninit loader_driver_fails_facts] by simp
  have "snd (initialize loader_driver_fails fresh_machine)
     = \<lparr>ctrl = \<lparr> hWinRing0Wrapper = None, pLoadWinRing0 = Some 1, pInitWinRing0 = Some 1,
                  pReadPort = Some 1, pWritePort = Some 1, pGetStatus = Some 1,
                  pDeinitWinRing0 = Some 1, winring_init_ok = False,
                  lastError = ''LoadWinRing0() via wrapper failed.'' \<rparr>,
         trace = acquisition 1 @ [Call_LoadWinRing0, FreeLibrary 1]\<rparr>"
    using initialize_failure [OF fresh_machine_uninit f] e
    by (cases "snd (initialize loader_driver_fails fresh_machine)")
       (simp add: loader_driver_fails_facts loader_driver_fails_exports resolved_ctrl_def
          fresh_machine_def FanController_new_def)
  with f show ?thesis by simp
qed

text \<open>
  C7 as stated fails: with a loader whose \<^verbatim>\<open>LoadWinRing0\<close> returns false,
  \<^verbatim>\<open>initialize\<close> on a new controller fails, and afterwards the controller differs
  from a new one in more than the last error: its function pointers are still set.
\<close>

theorem initialize_failure_counterexample:
  "fst (initialize loader_driver_fails fresh_machine) = False
   \<and> (ctrl (snd (initialize loader_driver_fails fresh_machine)))\<lparr>lastError := []\<rparr>
       \<noteq> FanController_new
   \<and> pReadPort (ctrl (snd (initialize loader_driver_fails fresh_machine))) = Some 1"
  using initialize_load_fails[OF fresh_machine_uninit loader_driver_fails_facts]
  by (simp add: resolved_ctrl_def fresh_machine_def FanController_new_def
      loader_driver_fails_exports)

text \<open>
  C8, as the code has it. \<^verbatim>\<open>deinitialize\<close> leaves the handle, the six function
  pointers and the initialized flag as in a new controller, and the last error as it
  was. It calls \<^verbatim>\<open>DeinitWinRing0\<close> only on an initialized controller and frees the
  library only when the handle is set. A second call in a row changes nothing more, and
  on a new controller the call changes nothing at all.
\<close>

theorem deinitialize_resets:
  "ctrl (deinitialize s) = FanController_new\<lparr>lastError := lastError (ctrl s)\<rparr>
   \<and> trace (deinitialize s) = trace s
        @ (if hWinRing0Wrapper (ctrl s) \<noteq> None \<and> winring_init_ok (ctrl s)
              \<and> pDeinitWinRing0 (ctrl s) \<noteq> None
           then [Call_DeinitWinRing0] else [])
        @ (case hWinRing0Wrapper (ctrl s) of Some h \<Rightarrow> [FreeLibrary h] | None \<Rightarrow> [])
   \<and> deinitialize (deinitialize s) = deinitialize s
   \<and> deinitialize \<lparr>ctrl = FanController_new, trace = tr\<rparr>
        = \<lparr>ctrl = FanController_new, trace = tr\<rparr>"
proof -
  have a: "ctrl (deinitialize s) = FanController_new\<lparr>lastError := lastError (ctrl s)\<rparr>" for s
    by (cases "hWinRing0Wrapper (ctrl s)")
       (simp_all add: deinit_defs FanController_new_def cong: let_weak_cong)
  have b: "trace (deinitialize s) = trace s
        @ (if hWinRing0Wrapper (ctrl s) \<noteq> None \<and> winring_init_ok (ctrl s)
              \<and> pDeinitWinRing0 (ctrl s) \<noteq> None
           then [Call_DeinitWinRing0] else [])
        @ (case hWinRing0Wrapper (ctrl s) of Some h \<Rightarrow> [FreeLibrary h] | None \<Rightarrow> [])" for s
    by (cases "hWinRing0Wrapper (ctrl s)")
       (simp_all add: deinit_defs cong: let_weak_cong)
  have c: "deinitialize s = s" if "ctrl s = FanController_new\<lparr>lastError := e\<rparr>" for s e
    using that by (simp add: deinit_defs FanController_new_def cong: let_weak_cong)
  have d: "deinitialize (deinitialize s) = deinitialize s"
    by (rule c[OF a])
  have e: "deinitialize \<lparr>ctrl = FanController_new, trace = tr\<rparr>
        = \<lparr>ctrl = FanController_new, trace = tr\<rparr>"
    by (rule c[of _ "[]"]) (simp add: FanController_new_def)
  show ?thesis using a b d e by blast
qed

theorem deinitialize_resets_witness:
  "deinitialize (ready_machine\<lparr>ctrl := (ctrl ready_machine)\<lparr>lastError := ''x''\<rparr>\<rparr>)
     = \<lparr>ctrl = FanController_new\<lparr>lastError := ''x''\<rparr>,
        trace = [Call_DeinitWinRing0, FreeLibrary 1]\<rparr>"
  using deinitialize_resets [of "ready_machine\<lparr>ctrl := (ctrl ready_machine)\<lparr>lastError := ''x''\<rparr>\<rparr>" "[]"]
  by (cases "deinitialize (ready_machine\<lparr>ctrl := (ctrl ready_machine)\<lparr>lastError := ''x''\<rparr>\<rparr>)")
     (simp add: ready_machine_def)

text \<open>
  C8 as stated fails: a \<^verbatim>\<open>writeConfig\<close> on a new controller records the
  not-initialized error, and \<^verbatim>\<open>deinitialize\<close> keeps that text, so the controller is
  not in the state of a new one.
\<close>

theorem deinitialize_resets_counterexample:
  "ctrl (deinitialize (snd (writeConfig (hw_const 0) FanConfigData_default fresh_machine)))
     \<noteq> FanController_new
   \<and> lastError (ctrl (deinitialize (snd (writeConfig (hw_const 0) FanConfigData_default fresh_machine))))
       = ''WinRing0 not initialized, cannot write config.''"
  by (simp add: deinit_defs writeConfig_def setError_def fresh_machine_def FanController_new_def
      cong: let_weak_cong)

section \<open>Claims about the array write and the default configuration\<close>

text \<open>
  C9. For every base address and every byte sequence the array write is one
  \<^verbatim>\<open>direct_ec_write\<close> per element, in index order, at address \<open>base + i\<close> (16-bit
  addition, which wraps) with the element at \<open>i\<close>; for the empty sequence the state,
  events included, is unchanged. On an initialized controller with the write export
  resolved each of these is the twelve port writes of one write transaction, so the
  events grow by exactly these transactions, one after the other, and by nothing else.
\<close>

theorem direct_ec_write_array_transactions:
  "direct_ec_write_array addr_base data s
     = foldl (\<lambda>s (i, d). direct_ec_write (addr_base + of_nat i) d s) s
         (zip [0..<length data] data)
   \<and> direct_ec_write_array addr_base [] s = s
   \<and> (winring_init_ok (ctrl s) \<and> pWritePort (ctrl s) \<noteq> None \<longrightarrow>
        direct_ec_write addr d s = s\<lparr>trace := trace s @ ec_write_transaction addr d\<rparr>
        \<and> direct_ec_write_array addr_base data s
            = s\<lparr>trace := trace s
                  @ concat (map (\<lambda>i. ec_write_transaction (addr_base + of_nat i) (data ! i))
                              [0..<length data])\<rparr>)"
proof -
  have "direct_ec_write_array addr_base data s
           = s\<lparr>trace := trace s
                 @ concat (map (\<lambda>i. ec_write_transaction (addr_base + of_nat i) (data ! i))
                             [0..<length data])\<rparr>"
    if "winring_init_ok (ctrl s)" "pWritePort (ctrl s) \<noteq> None"
    using write_array_prefix[OF that, of addr_base data "length data"]
    by (simp add: direct_ec_write_array_def)
  moreover have "direct_ec_write_array addr_base [] s = s"
    by (simp add: direct_ec_write_array_def)
  ultimately show ?thesis
    using direct_ec_write_ready[of s addr d] write_array_as_fold[of addr_base data s]
    by blast
qed

theorem direct_ec_write_array_transactions_witness:
  "direct_ec_write_array 0xFFFF [0x21, 0x22] ready_machine
     = ready_machine\<lparr>trace := ec_write_transaction 0xFFFF 0x21 @ ec_write_transaction 0 0x22\<rparr>
   \<and> direct_ec_write_array 0xFFFF [] ready_machine = ready_machine"
proof -
  have w: "winring_init_ok (ctrl ready_machine) \<and> pWritePort (ctrl ready_machine) \<noteq> None"
    by (simp add: ready_machine_def)
  have t: "trace ready_machine = []"
    by (simp add: ready_machine_def)
  have z: "(65536 :: 16 word) = 0"
    by simp
  have "direct_ec_write_array 0xFFFF [0x21, 0x22] ready_machine
     = ready_machine\<lparr>trace := trace ready_machine
          @ concat (map (\<lambda>i. ec_write_transaction (0xFFFF + of_nat i) ([0x21, 0x22] ! i))
                      [0..<length [0x21, 0x22 :: 8 word]])\<rparr>"
    using direct_ec_write_array_transactions [of "0xFFFF" "[0x21, 0x22]" ready_machine] w
    by blast
  moreover have "direct_ec_write_array 0xFFFF [] ready_machine = ready_machine"
    using direct_ec_write_array_transactions [of "0xFFFF" "[]" ready_machine]
    by blast
  ultimately show ?thesis
    by (simp add: t z)
qed

text \<open>
  C10. The constructor of \<^verbatim>\<open>FanConfigData\<close> gives each of the ten tables ten zeros,
  so the size check of \<^verbatim>\<open>writeConfig\<close> does not fire on it: on every initialized
  controller, and whatever the hardware answers, \<^verbatim>\<open>writeConfig\<close> of the default
  configuration returns true and the last error is not the invalid-configuration
  message.
\<close>

theorem writeConfig_default_config:
  "FanConfigData.fan1_curve FanConfigData_default = replicate 10 0
   \<and> FanConfigData.fan2_curve FanConfigData_default = replicate 10 0
   \<and> FanConfigData.acc_time FanConfigData_default = replicate 10 0
   \<and> FanConfigData.dec_time FanConfigData_default = replicate 10 0
   \<and> FanConfigData.cpu_lower_temp FanConfigData_default = replicate 10 0
   \<and> FanConfigData.cpu_upper_temp FanConfigData_default = replicate 10 0
   \<and> FanConfigData.gpu_lower_temp FanConfigData_default = replicate 10 0
   \<and> FanConfigData.gpu_upper_temp FanConfigData_default = replicate 10 0
   \<and> FanConfigData.vrm_lower_temp FanConfigData_default = replicate 10 0
   \<and> FanConfigData.vrm_upper_temp FanConfigData_default = replicate 10 0
   \<and> \<not> bad_sizes FanConfigData_default
   \<and> (winring_init_ok (ctrl s) \<longrightarrow>
        fst (writeConfig hw FanConfigData_default s) = True
        \<and> lastError (ctrl (snd (writeConfig hw FanConfigData_default s)))
            \<noteq> ''Invalid configuration data: All arrays must have size 10.'')"
proof -
  let ?t = "writeConfig_tables hw FanConfigData_default (setError [] s)"
  have w: "writeConfig hw FanConfigData_default s
             = (True, writeConfig_live hw FanConfigData_default ?t)"
    if "winring_init_ok (ctrl s)"
    using that default_sizes_ok by (simp add: writeConfig_def Let_def)
  have e: "lastError (ctrl ?t) = []"
    by (simp add: setError_def)
  have "lastError (ctrl (writeConfig_live hw FanConfigData_default ?t))
          \<noteq> ''Invalid configuration data: All arrays must have size 10.''"
    using writeConfig_live_lastError[of hw FanConfigData_default ?t] e by auto
  then have "winring_init_ok (ctrl s) \<longrightarrow>
        fst (writeConfig hw FanConfigData_default s) = True
        \<and> lastError (ctrl (snd (writeConfig hw FanConfigData_default s)))
            \<noteq> ''Invalid configuration data: All arrays must have size 10.''"
    using w by simp
  then show ?thesis
    using default_sizes_ok by (simp add: FanConfigData_default_def)
qed

theorem writeConfig_default_config_witness:
  "fst (writeConfig (hw_const 3) FanConfigData_default ready_machine) = True
   \<and> lastError (ctrl (snd (writeConfig (hw_const 3) FanConfigData_default ready_machine)))
       \<noteq> ''Invalid configuration data: All arrays must have size 10.''"
  using writeConfig_default_config [of ready_machine "hw_const 3"] ready_machine_init
  by blast

end
